theory Spec2Isabelle
  imports Main "HOL-Library.Sublist"
begin

section \<open>Python values, exceptions and strings\<close>

text \<open>
  The orchestrator (\<^verbatim>\<open>src/orchestrator/agent.py\<close>), the bull specialist's server
  (\<^verbatim>\<open>src/bull_agent/server.py\<close>) and the tracing middleware
  (\<^verbatim>\<open>src/tracing/setup.py\<close>) are Python. A value that the code receives from a parsed
  JSON body, or reads from a dynamically typed attribute, is a \<open>pyval\<close>. A dictionary is an
  association list read with \<open>map_of\<close>. A number is an integer or a float; the code
  never computes with one: it tests it for truth and writes it back as JSON. A float is
  one of the three values that Python's \<^verbatim>\<open>json.loads\<close> reads from the literals
  \<^verbatim>\<open>NaN\<close>, \<^verbatim>\<open>Infinity\<close> and \<^verbatim>\<open>-Infinity\<close>, or a finite value \<open>m * 2 ^ e\<close>, given by
  \<open>m\<close> and \<open>e\<close>. Strings are ASCII text, so every string of the model can be encoded as
  UTF-8.
\<close>

datatype pyfloat = NaN | Infinity | MinusInfinity | Finite int int

datatype pyval =
    PNone
  | PBool bool
  | PNum int
  | PFloat pyfloat
  | PStr string
  | PList "pyval list"
  | PDict "(string \<times> pyval) list"

text \<open>An exception is its class name and \<^verbatim>\<open>str(e)\<close>. Every exception of the model is an
  instance of \<^verbatim>\<open>Exception\<close>, which is what the handlers of the code catch.\<close>

datatype exn = Exn (exn_class: string) (exn_str: string)

fun truthy :: "pyval \<Rightarrow> bool" where
  "truthy PNone = False"
| "truthy (PBool b) = b"
| "truthy (PNum n) = (n \<noteq> 0)"
| "truthy (PFloat NaN) = True"
| "truthy (PFloat Infinity) = True"
| "truthy (PFloat MinusInfinity) = True"
| "truthy (PFloat (Finite m e)) = (m \<noteq> 0)"
| "truthy (PStr s) = (s \<noteq> [])"
| "truthy (PList xs) = (xs \<noteq> [])"
| "truthy (PDict kvs) = (kvs \<noteq> [])"

fun type_name :: "pyval \<Rightarrow> string" where
  "type_name PNone = ''NoneType''"
| "type_name (PBool b) = ''bool''"
| "type_name (PNum n) = ''int''"
| "type_name (PFloat x) = ''float''"
| "type_name (PStr s) = ''str''"
| "type_name (PList xs) = ''list''"
| "type_name (PDict kvs) = ''dict''"

text \<open>A name between single quotes, as the messages of CPython show it.\<close>

definition quoted :: "string \<Rightarrow> string" where
  "quoted s = [CHR 0x27] @ s @ [CHR 0x27]"

text \<open>\<^verbatim>\<open>key in v\<close> for a string \<open>key\<close>: a key of a dictionary, an element of a list, a
  substring of a string; a TypeError on every other value. The messages are CPython 3.11's.\<close>

fun py_in :: "string \<Rightarrow> pyval \<Rightarrow> exn + bool" where
  "py_in key (PDict kvs) = Inr (map_of kvs key \<noteq> None)"
| "py_in key (PList xs) = Inr (List.member xs (PStr key))"
| "py_in key (PStr s) = Inr (sublist key s)"
| "py_in key v =
     Inl (Exn ''TypeError'' (''argument of type '' @ quoted (type_name v) @ '' is not iterable''))"

text \<open>\<^verbatim>\<open>v[key]\<close> for a string \<open>key\<close>. The code subscripts a dictionary only by a key it has
  just found in it; the KeyError of a missing key carries the key's \<^verbatim>\<open>repr\<close>, written
  here for keys without quotes or escapes.\<close>

fun py_getitem :: "pyval \<Rightarrow> string \<Rightarrow> exn + pyval" where
  "py_getitem (PDict kvs) key =
     (case map_of kvs key of
        Some v \<Rightarrow> Inr v
      | None \<Rightarrow> Inl (Exn ''KeyError'' (quoted key))) "
| "py_getitem (PList xs) key =
     Inl (Exn ''TypeError'' ''list indices must be integers or slices, not str'')"
| "py_getitem (PStr s) key =
     Inl (Exn ''TypeError'' (''string indices must be integers, not '' @ quoted ''str''))"
| "py_getitem v key =
     Inl (Exn ''TypeError'' (quoted (type_name v) @ '' object is not subscriptable''))"

text \<open>\<^verbatim>\<open>v[0]\<close>. The keys of a dictionary of the model are strings, so \<open>0\<close> is never one.\<close>

fun py_getitem0 :: "pyval \<Rightarrow> exn + pyval" where
  "py_getitem0 (PList (x # xs)) = Inr x"
| "py_getitem0 (PList []) = Inl (Exn ''IndexError'' ''list index out of range'')"
| "py_getitem0 (PStr (c # cs)) = Inr (PStr [c])"
| "py_getitem0 (PStr []) = Inl (Exn ''IndexError'' ''string index out of range'')"
| "py_getitem0 (PDict kvs) = Inl (Exn ''KeyError'' ''0'')"
| "py_getitem0 v =
     Inl (Exn ''TypeError'' (quoted (type_name v) @ '' object is not subscriptable''))"

text \<open>\<^verbatim>\<open>v.get(key, default)\<close>: a method of dictionaries only.\<close>

fun py_get :: "pyval \<Rightarrow> string \<Rightarrow> pyval \<Rightarrow> exn + pyval" where
  "py_get (PDict kvs) key dflt =
     Inr (case map_of kvs key of Some v \<Rightarrow> v | None \<Rightarrow> dflt)"
| "py_get v key dflt =
     Inl (Exn ''AttributeError'' (quoted (type_name v) @ '' object has no attribute '' @ quoted ''get''))"

text \<open>\<^verbatim>\<open>for part in v\<close>: the elements of a list, the one-character strings of a string, the
  keys of a dictionary.\<close>

fun py_iter :: "pyval \<Rightarrow> exn + pyval list" where
  "py_iter (PList xs) = Inr xs"
| "py_iter (PStr s) = Inr (map (\<lambda>c. PStr [c]) s)"
| "py_iter (PDict kvs) = Inr (map (\<lambda>kv. PStr (fst kv)) kvs)"
| "py_iter v =
     Inl (Exn ''TypeError'' (quoted (type_name v) @ '' object is not iterable''))"

text \<open>\<^verbatim>\<open>len(v)\<close>: strings, lists and dictionaries have a length.\<close>

fun py_len :: "pyval \<Rightarrow> exn + nat" where
  "py_len (PStr s) = Inr (length s)"
| "py_len (PList xs) = Inr (length xs)"
| "py_len (PDict kvs) = Inr (length kvs)"
| "py_len v =
     Inl (Exn ''TypeError'' (''object of type '' @ quoted (type_name v) @ '' has no len()''))"

text \<open>\<^verbatim>\<open>str.lower\<close> and \<^verbatim>\<open>str.strip\<close> on ASCII text: \<open>A\<close> to \<open>Z\<close> become \<open>a\<close> to
  \<open>z\<close>; the white space is tab, line feed, vertical tab, form feed, carriage return, the
  separators 0x1C to 0x1F and the space.\<close>

definition lower_char :: "char \<Rightarrow> char" where
  "lower_char c =
     (let n = (of_char c :: nat) in if 65 \<le> n \<and> n \<le> 90 then char_of (n + 32) else c)"

definition lower :: "string \<Rightarrow> string" where
  "lower s = map lower_char s"

definition is_space :: "char \<Rightarrow> bool" where
  "is_space c =
     (let n = (of_char c :: nat) in (9 \<le> n \<and> n \<le> 13) \<or> (28 \<le> n \<and> n \<le> 32))"

definition strip :: "string \<Rightarrow> string" where
  "strip s = rev (dropWhile is_space (rev (dropWhile is_space s)))"

section \<open>The world outside the process\<close>

text \<open>
  The code talks to a hosted language model (\<^verbatim>\<open>client.messages.create\<close>), to the two
  specialists over HTTP (\<^verbatim>\<open>httpx.AsyncClient.post\<close>), draws identifiers
  (\<^verbatim>\<open>uuid.uuid4\<close>) and prints. Each of these is an effect, appended to a log in the
  order the code performs it. What the outside answers is given by an environment whose
  answers may depend on everything that happened before (the log so far).
\<close>

record model_request =
  req_model :: string
  req_max_tokens :: nat
  req_content :: string

text \<open>A content block of a model reply: a text block, or a block of another class (named),
  which has no \<^verbatim>\<open>text\<close> attribute.\<close>

datatype content_block = TextBlock string | OtherBlock string

text \<open>An HTTP response, as far as the code reads it: the status, the text of the
  HTTPStatusError that \<^verbatim>\<open>raise_for_status\<close> builds for it, and what \<^verbatim>\<open>json()\<close>
  gives: the parsed body, or the error of a body that is not JSON.\<close>

record http_response =
  status_code :: nat
  status_message :: string
  json_body :: "exn + pyval"

datatype effect =
    Uuid4 string
  | ModelCall model_request
  | HttpPost string pyval
  | Print string

type_synonym world = "effect list"

record env =
  messages_create :: "world \<Rightarrow> model_request \<Rightarrow> exn + content_block list"
  http_post :: "world \<Rightarrow> string \<Rightarrow> pyval \<Rightarrow> exn + http_response"
  uuid4 :: "world \<Rightarrow> string"
  py_str :: "pyval \<Rightarrow> string"

text \<open>\<^verbatim>\<open>f"{v}"\<close>: a string formats as itself; the text of any other value is Python's own
  \<^verbatim>\<open>str\<close>, taken from the environment.\<close>

fun format_value :: "env \<Rightarrow> pyval \<Rightarrow> string" where
  "format_value env (PStr s) = s"
| "format_value env v = py_str env v"

section \<open>The orchestrator\<close>

text \<open>\<^verbatim>\<open>CustomOrchestratorAgent.__init__\<close>: the model name and the two specialist URLs, the
  ports read from the process environment.\<close>

record orchestrator =
  model :: string
  bull_agent_url :: string
  bear_agent_url :: string

definition environ_get :: "(string \<rightharpoonup> string) \<Rightarrow> string \<Rightarrow> string \<Rightarrow> string" where
  "environ_get environ key dflt = (case environ key of Some v \<Rightarrow> v | None \<Rightarrow> dflt)"

definition create_orchestrator :: "(string \<rightharpoonup> string) \<Rightarrow> orchestrator" where
  "create_orchestrator environ =
     \<lparr> model = ''claude-sonnet-4-20250514'',
       bull_agent_url = ''http://localhost:'' @ environ_get environ ''BULL_AGENT_PORT'' ''8001'' @ ''/'',
       bear_agent_url = ''http://localhost:'' @ environ_get environ ''BEAR_AGENT_PORT'' ''8002'' @ ''/'' \<rparr>"

text \<open>\<^verbatim>\<open>response.content[0].text\<close>: an IndexError on an empty content list, an
  AttributeError on a block without text.\<close>

fun first_text :: "content_block list \<Rightarrow> exn + string" where
  "first_text [] = Inl (Exn ''IndexError'' ''list index out of range'')"
| "first_text (TextBlock t # bs) = Inr t"
| "first_text (OtherBlock cls # bs) =
     Inl (Exn ''AttributeError'' (quoted cls @ '' object has no attribute '' @ quoted ''text''))"

subsection \<open>Routing: \<^verbatim>\<open>_determine_agents\<close>\<close>

definition routing_prompt :: "string \<Rightarrow> string" where
  "routing_prompt query =
     ''Based on this financial query, determine which specialist analyst should handle it:\<newline>''
     @ ''- '' @ [CHR 0x22] @ ''bull_analyst'' @ [CHR 0x22] @ '' for opportunities, growth, upside, bullish analysis\<newline>''
     @ ''- '' @ [CHR 0x22] @ ''bear_analyst'' @ [CHR 0x22] @ '' for risks, concerns, downside, bearish analysis\<newline>''
     @ ''- '' @ [CHR 0x22] @ ''both'' @ [CHR 0x22] @ '' if the query requires both perspectives\<newline>''
     @ ''\<newline>''
     @ ''Query: '' @ query @ ''\<newline>''
     @ ''\<newline>''
     @ ''Respond with ONLY the agent name(s): '' @ [CHR 0x22] @ ''bull_analyst'' @ [CHR 0x22]
     @ '', '' @ [CHR 0x22] @ ''bear_analyst'' @ [CHR 0x22] @ '', or '' @ [CHR 0x22] @ ''both''
     @ [CHR 0x22] @ ''.''"

definition routing_request :: "orchestrator \<Rightarrow> string \<Rightarrow> model_request" where
  "routing_request self query =
     \<lparr> req_model = model self, req_max_tokens = 50, req_content = routing_prompt query \<rparr>"

text \<open>
  The method lower-cases its argument first, outside every handler: a query that is not a
  string has no \<^verbatim>\<open>lower\<close> and the AttributeError leaves the method. The two keyword tests
  return before the model is called. The model call, the reading of its first block and the
  parse of the reply are inside one \<^verbatim>\<open>try\<close>, whose handler prints and answers both.
\<close>

definition determine_agents ::
  "env \<Rightarrow> orchestrator \<Rightarrow> world \<Rightarrow> pyval \<Rightarrow> (exn + string list) \<times> world" where
  "determine_agents env self w query =
     (case query of
        PStr q \<Rightarrow>
          (let query_lower = lower q in
           if list_ex (\<lambda>phrase. sublist phrase query_lower) [''analyze'', ''analysis'']
           then (Inr [''bull_analyst'', ''bear_analyst''], w)
           else if list_ex (\<lambda>phrase. sublist phrase query_lower)
                     [''both'', ''bull and bear'', ''pros and cons'', ''opportunities and risks'']
           then (Inr [''bull_analyst'', ''bear_analyst''], w)
           else
             (let w1 = w @ [ModelCall (routing_request self q)] in
              case (case messages_create env w (routing_request self q) of
                      Inl e \<Rightarrow> Inl e
                    | Inr content \<Rightarrow> first_text content) of
                Inr text \<Rightarrow>
                  (let agent_response = lower (strip text) in
                   if sublist ''both'' agent_response
                   then (Inr [''bull_analyst'', ''bear_analyst''], w1)
                   else if sublist ''bear'' agent_response
                   then (Inr [''bear_analyst''], w1)
                   else if sublist ''bull'' agent_response
                   then (Inr [''bull_analyst''], w1)
                   else (Inr [''bull_analyst'', ''bear_analyst''], w1))
              | Inl e \<Rightarrow>
                  (Inr [''bull_analyst'', ''bear_analyst''],
                   w1 @ [Print (''Error determining agent: '' @ exn_str e)])))
      | _ \<Rightarrow>
          (Inl (Exn ''AttributeError''
                  (quoted (type_name query) @ '' object has no attribute '' @ quoted ''lower'')), w))"

subsection \<open>Calling a specialist: \<^verbatim>\<open>_call_agent_via_a2a\<close>\<close>

text \<open>A step that may raise, followed by the rest of the block.\<close>

fun and_then :: "exn + 'a \<Rightarrow> ('a \<Rightarrow> exn + 'b) \<Rightarrow> exn + 'b" where
  "and_then (Inl e) f = Inl e"
| "and_then (Inr x) f = f x"

text \<open>\<^verbatim>\<open>key in v and v[key]\<close>, as a truth value: the subscript is evaluated only when the
  key is found.\<close>

definition has_truthy :: "string \<Rightarrow> pyval \<Rightarrow> exn + bool" where
  "has_truthy key v =
     and_then (py_in key v) (\<lambda>found.
       if found then and_then (py_getitem v key) (\<lambda>x. Inr (truthy x)) else Inr False)"

text \<open>\<^verbatim>\<open>response.raise_for_status()\<close> of httpx: an HTTPStatusError unless the status is
  200 to 299.\<close>

definition raise_for_status :: "http_response \<Rightarrow> exn + unit" where
  "raise_for_status response =
     (if 200 \<le> status_code response \<and> status_code response \<le> 299 then Inr ()
      else Inl (Exn ''HTTPStatusError'' (status_message response)))"

text \<open>
  The block under \<^verbatim>\<open># Extract text from agent response\<close>: the first part of the first
  artifact of \<^verbatim>\<open>result\<close>, when its \<^verbatim>\<open>kind\<close> is \<^verbatim>\<open>"text"\<close> and it has a \<^verbatim>\<open>text\<close>;
  the empty string in every other case that does not raise. There is no other branch.
\<close>

definition extract_text :: "pyval \<Rightarrow> exn + pyval" where
  "extract_text result =
     and_then (py_in ''result'' result) (\<lambda>has_result.
       if has_result then
         and_then (py_getitem result ''result'') (\<lambda>task.
         and_then (has_truthy ''artifacts'' task) (\<lambda>has_artifacts.
           if has_artifacts then
             and_then (py_getitem task ''artifacts'') (\<lambda>artifacts.
             and_then (py_getitem0 artifacts) (\<lambda>artifact.
             and_then (has_truthy ''parts'' artifact) (\<lambda>has_parts.
               if has_parts then
                 and_then (py_getitem artifact ''parts'') (\<lambda>parts.
                 and_then (py_getitem0 parts) (\<lambda>part.
                 and_then (py_get part ''kind'' PNone) (\<lambda>kind.
                 and_then (if kind = PStr ''text'' then py_in ''text'' part else Inr False)
                   (\<lambda>is_text.
                     if is_text then py_getitem part ''text'' else Inr (PStr '''')))))
               else Inr (PStr ''''))))
           else Inr (PStr '''')))
       else Inr (PStr ''''))"

text \<open>
  What the block accepts, as a pattern on the body: \<^verbatim>\<open>result.artifacts[0].parts[0]\<close> is
  an object whose \<^verbatim>\<open>kind\<close> is \<^verbatim>\<open>"text"\<close>, and the value is its \<^verbatim>\<open>text\<close>. The lemma
  \<open>extract_text_artifact\<close> below shows that the block returns this value where the pattern
  matches, and the empty string or an exception everywhere else.
\<close>

definition artifact_text :: "pyval \<Rightarrow> pyval option" where
  "artifact_text result =
     (case result of
        PDict body \<Rightarrow>
          (case map_of body ''result'' of
             Some (PDict task) \<Rightarrow>
               (case map_of task ''artifacts'' of
                  Some (PList (PDict artifact # artifacts)) \<Rightarrow>
                    (case map_of artifact ''parts'' of
                       Some (PList (PDict part # parts)) \<Rightarrow>
                         (if map_of part ''kind'' = Some (PStr ''text'')
                          then map_of part ''text'' else None)
                     | _ \<Rightarrow> None)
                | _ \<Rightarrow> None)
           | _ \<Rightarrow> None)
      | _ \<Rightarrow> None)"

definition a2a_payload :: "string \<Rightarrow> string \<Rightarrow> pyval \<Rightarrow> pyval" where
  "a2a_payload request_id message_id query =
     PDict [(''jsonrpc'', PStr ''2.0''),
            (''method'', PStr ''message/send''),
            (''id'', PStr request_id),
            (''params'', PDict [(''message'',
               PDict [(''messageId'', PStr message_id),
                      (''parts'', PList [PDict [(''text'', query)]]),
                      (''role'', PStr ''user'')])])]"

text \<open>
  Lines 72 to 86: the two identifiers are drawn in the order the payload names them, then
  the payload is posted to the specialist. The result is what the post gives (a response,
  or the exception of a connection error or a timeout) and the log after it.
\<close>

definition post_message ::
  "env \<Rightarrow> world \<Rightarrow> string \<Rightarrow> pyval \<Rightarrow> (exn + http_response) \<times> world" where
  "post_message env w agent_url query =
     (let request_id = uuid4 env w;
          w1 = w @ [Uuid4 request_id];
          message_id = uuid4 env w1;
          w2 = w1 @ [Uuid4 message_id];
          payload = a2a_payload request_id message_id query
      in (http_post env w2 agent_url payload, w2 @ [HttpPost agent_url payload]))"

text \<open>
  The whole body is inside \<^verbatim>\<open>try\<close>; the handler catches \<^verbatim>\<open>Exception\<close>, prints and
  returns the empty string. Where the block finds no text the method returns the empty
  string too, without printing.
\<close>

definition call_agent_via_a2a ::
  "env \<Rightarrow> world \<Rightarrow> string \<Rightarrow> pyval \<Rightarrow> (exn + pyval) \<times> world" where
  "call_agent_via_a2a env w agent_url query =
     (let (posted, w3) = post_message env w agent_url query
      in case and_then posted (\<lambda>response.
              and_then (raise_for_status response) (\<lambda>_.
              and_then (json_body response) extract_text)) of
           Inr text \<Rightarrow> (Inr text, w3)
         | Inl e \<Rightarrow>
             (Inr (PStr ''''),
              w3 @ [Print (''Error calling agent at '' @ agent_url @ '': '' @ exn_str e)]))"

subsection \<open>The same parse in the command line client: \<^verbatim>\<open>query_orchestrator\<close>\<close>

text \<open>
  \<^verbatim>\<open>src/cli/main.py\<close> reads the orchestrator's reply, an envelope of the same protocol, in
  lines 88 to 107: the first \<^verbatim>\<open>text\<close> of any part of any artifact, then the first \<^verbatim>\<open>text\<close>
  of the parts of \<^verbatim>\<open>status.message\<close>. The result here is the text found, or \<open>None\<close> where
  the client falls through to printing the whole body, or the exception raised, which the
  handlers of \<^verbatim>\<open>query_orchestrator\<close> turn into an error result. In the artifact branch the
  client takes \<^verbatim>\<open>len\<close> of the text before it returns it, for the attribute
  \<^verbatim>\<open>response.length\<close> of its span; a text without a length raises there.
\<close>

fun cli_artifact_parts_text :: "pyval list \<Rightarrow> exn + pyval option" where
  "cli_artifact_parts_text [] = Inr None"
| "cli_artifact_parts_text (part # parts) =
     and_then (py_in ''text'' part) (\<lambda>has_text.
       if has_text
       then and_then (py_getitem part ''text'') (\<lambda>t.
            and_then (py_len t) (\<lambda>response_length. Inr (Some t)))
       else cli_artifact_parts_text parts)"

fun cli_parts_text :: "pyval list \<Rightarrow> exn + pyval option" where
  "cli_parts_text [] = Inr None"
| "cli_parts_text (part # parts) =
     and_then (py_in ''text'' part) (\<lambda>has_text.
       if has_text then and_then (py_getitem part ''text'') (\<lambda>t. Inr (Some t))
       else cli_parts_text parts)"

fun cli_artifacts_text :: "pyval list \<Rightarrow> exn + pyval option" where
  "cli_artifacts_text [] = Inr None"
| "cli_artifacts_text (artifact # artifacts) =
     and_then (py_in ''parts'' artifact) (\<lambda>has_parts.
       and_then (if has_parts
                 then and_then (py_getitem artifact ''parts'') (\<lambda>parts.
                      and_then (py_iter parts) cli_artifact_parts_text)
                 else Inr None) (\<lambda>found.
         case found of
           Some t \<Rightarrow> Inr (Some t)
         | None \<Rightarrow> cli_artifacts_text artifacts))"

definition cli_extract_text :: "pyval \<Rightarrow> exn + pyval option" where
  "cli_extract_text result =
     and_then (py_in ''result'' result) (\<lambda>has_result.
       if has_result then
         and_then (py_getitem result ''result'') (\<lambda>task.
         and_then (has_truthy ''artifacts'' task) (\<lambda>has_artifacts.
         and_then (if has_artifacts
                   then and_then (py_getitem task ''artifacts'') (\<lambda>artifacts.
                        and_then (py_iter artifacts) cli_artifacts_text)
                   else Inr None) (\<lambda>found.
           case found of
             Some t \<Rightarrow> Inr (Some t)
           | None \<Rightarrow>
               and_then (py_in ''status'' task) (\<lambda>has_status.
               and_then (if has_status
                         then and_then (py_getitem task ''status'') (py_in ''message'')
                         else Inr False) (\<lambda>has_message.
                 if has_message then
                   and_then (py_getitem task ''status'') (\<lambda>status.
                   and_then (py_getitem status ''message'') (\<lambda>msg.
                   and_then (py_in ''parts'' msg) (\<lambda>has_parts.
                     if has_parts
                     then and_then (py_getitem msg ''parts'') (\<lambda>parts.
                          and_then (py_iter parts) cli_parts_text)
                     else Inr None)))
                 else Inr None)))))
       else Inr None)"

subsection \<open>The request: \<^verbatim>\<open>run_async\<close>\<close>

text \<open>
  The invocation context, as far as \<^verbatim>\<open>run_async\<close> reads it. The user content is absent
  (\<open>None\<close>), or an object with \<^verbatim>\<open>parts\<close>, or an object without \<^verbatim>\<open>parts\<close> but with a
  \<^verbatim>\<open>text\<close>, or an object with neither. The \<^verbatim>\<open>parts\<close> of a \<^verbatim>\<open>Content\<close> of google.genai
  is a list of parts or \<open>None\<close>, which is its default. A part has a text or none. The
  session state is a dictionary, \<open>None\<close> when the context has no session or the session no
  state.
\<close>

datatype part = Part (part_text: "string option")

datatype content = Content "part list option" | TextOnly pyval | Opaque

record invocation_context =
  user_content :: "content option"
  session_state :: "(string \<times> pyval) list option"

record event =
  author :: string
  event_text :: string

text \<open>The loop over the parts: the text of the first part whose text is not empty.\<close>

fun first_part_text :: "part list \<Rightarrow> string" where
  "first_part_text [] = ''''"
| "first_part_text (Part None # ps) = first_part_text ps"
| "first_part_text (Part (Some t) # ps) = (if t \<noteq> [] then t else first_part_text ps)"

text \<open>Lines 158 to 167: the query from the user content. The loop iterates
  \<^verbatim>\<open>user_content.parts\<close> as it is, outside every \<^verbatim>\<open>try\<close>: \<open>None\<close> is not iterable.\<close>

definition content_query :: "content option \<Rightarrow> exn + pyval" where
  "content_query content =
     (case content of
        None \<Rightarrow> Inr (PStr '''')
      | Some (Content None) \<Rightarrow>
          Inl (Exn ''TypeError'' (quoted ''NoneType'' @ '' object is not iterable''))
      | Some (Content (Some parts)) \<Rightarrow> Inr (PStr (first_part_text parts))
      | Some (TextOnly t) \<Rightarrow> Inr t
      | Some Opaque \<Rightarrow> Inr (PStr ''''))"

text \<open>Lines 158 to 172: the query from the user content, else from the session state.\<close>

definition extract_query :: "invocation_context \<Rightarrow> exn + pyval" where
  "extract_query parent_context =
     and_then (content_query (user_content parent_context)) (\<lambda>query.
       if \<not> truthy query then
         (case session_state parent_context of
            Some state \<Rightarrow> Inr (case map_of state ''query'' of Some v \<Rightarrow> v | None \<Rightarrow> PStr '''')
          | None \<Rightarrow> Inr query)
       else Inr query)"

definition ORCHESTRATOR_SYSTEM_PROMPT :: string where
  "ORCHESTRATOR_SYSTEM_PROMPT =
     ''You are a Financial Query Router that analyzes user queries and routes them to the appropriate specialist analyst.\<newline>''
     @ ''\<newline>''
     @ ''Your role is to intelligently route financial queries to the most relevant specialist analyst based on the query's intent and focus.\<newline>''
     @ ''\<newline>''
     @ ''You have access to:\<newline>''
     @ ''- bull_analyst: An optimistic analyst who identifies opportunities, growth catalysts, upside potential, bullish perspectives, entry points, and momentum signals. Use for queries about: opportunities, growth, upside, bullish analysis, entry points, catalysts, momentum, positive outlook.\<newline>''
     @ ''- bear_analyst: A cautious analyst who identifies risks, downside scenarios, red flags, valuation concerns, and potential negative catalysts. Use for queries about: risks, concerns, downside, bearish analysis, exit signals, red flags, threats, negative outlook.\<newline>''
     @ ''\<newline>''
     @ ''ROUTING PROCESS:\<newline>''
     @ ''1. Analyze the user's query to determine its primary intent and focus\<newline>''
     @ ''2. Route to bull_analyst if the query focuses on opportunities, growth, upside, bullish analysis\<newline>''
     @ ''3. Route to bear_analyst if the query focuses on risks, concerns, downside, bearish analysis\<newline>''
     @ ''4. If the query is neutral/balanced, prefer routing to the single most relevant specialist\<newline>''
     @ ''\<newline>''
     @ ''OUTPUT:\<newline>''
     @ ''- Return the selected agent's analysis directly and clearly\<newline>''
     @ ''- Present the analysis in a clear, actionable format''"

definition fallback_request :: "env \<Rightarrow> orchestrator \<Rightarrow> pyval \<Rightarrow> model_request" where
  "fallback_request env self query =
     \<lparr> req_model = model self, req_max_tokens = 4096,
       req_content = ORCHESTRATOR_SYSTEM_PROMPT @ ''\<newline>\<newline>User Query: '' @ format_value env query
                     @ ''\<newline>\<newline>Provide a financial analysis based on the query.'' \<rparr>"

text \<open>
  Lines 191 to 226, \<^verbatim>\<open># Format the combined response\<close>: the two sections, one section,
  or, when neither specialist answered, one model completion inside a \<^verbatim>\<open>try\<close> whose
  handler turns the exception into text.
\<close>

definition format_response ::
  "env \<Rightarrow> orchestrator \<Rightarrow> world \<Rightarrow> pyval \<Rightarrow> pyval \<Rightarrow> pyval \<Rightarrow> string \<times> world" where
  "format_response env self w query bull_response bear_response =
     (if truthy bull_response \<and> truthy bear_response then
        (''## Bull Case\<newline>\<newline>'' @ format_value env bull_response
           @ ''\<newline>\<newline>---\<newline>\<newline>## Bear Case\<newline>\<newline>'' @ format_value env bear_response, w)
      else if truthy bull_response then
        (''## Bull Case\<newline>\<newline>'' @ format_value env bull_response, w)
      else if truthy bear_response then
        (''## Bear Case\<newline>\<newline>'' @ format_value env bear_response, w)
      else
        (case and_then (messages_create env w (fallback_request env self query)) first_text of
           Inr text \<Rightarrow> (text, w @ [ModelCall (fallback_request env self query)])
         | Inl e \<Rightarrow>
             (''Error generating response: '' @ exn_str e,
              w @ [ModelCall (fallback_request env self query)])))"

text \<open>
  The generator as the list of events it yields, or the exception that leaves it. An
  exception of the extraction or of the routing leaves it before anything is yielded.
  Without a query it yields one event and returns. Otherwise it routes, calls the chosen
  specialists in the order bull, bear, and yields the formatted response.
\<close>

definition run_async ::
  "env \<Rightarrow> orchestrator \<Rightarrow> world \<Rightarrow> invocation_context \<Rightarrow> (exn + event list) \<times> world" where
  "run_async env self w parent_context =
     (case extract_query parent_context of
        Inl e \<Rightarrow> (Inl e, w)
      | Inr query \<Rightarrow>
          if \<not> truthy query then
            (Inr [\<lparr> author = ''agent'', event_text = ''No query provided'' \<rparr>], w)
          else
            (case determine_agents env self w query of
               (Inl e, w1) \<Rightarrow> (Inl e, w1)
             | (Inr agents_to_call, w1) \<Rightarrow>
                 (case (if List.member agents_to_call ''bull_analyst''
                        then call_agent_via_a2a env w1 (bull_agent_url self) query
                        else (Inr (PStr ''''), w1)) of
                    (Inl e, w2) \<Rightarrow> (Inl e, w2)
                  | (Inr bull_response, w2) \<Rightarrow>
                      (case (if List.member agents_to_call ''bear_analyst''
                             then call_agent_via_a2a env w2 (bear_agent_url self) query
                             else (Inr (PStr ''''), w2)) of
                         (Inl e, w3) \<Rightarrow> (Inl e, w3)
                       | (Inr bear_response, w3) \<Rightarrow>
                           (let (agent_response, w4) =
                                  format_response env self w3 query bull_response bear_response
                            in (Inr [\<lparr> author = ''agent'', event_text = agent_response \<rparr>],
                                w4))))))"

section \<open>The bull specialist's server: \<^verbatim>\<open>handle_message\<close>\<close>

text \<open>
  The server answers a POST on \<^verbatim>\<open>/\<close> with a \<^verbatim>\<open>JSONResponse\<close>, whose status is 200
  unless given. Starlette renders the content when the response is built, with
  \<^verbatim>\<open>json.dumps(..., allow_nan=False)\<close> and an encoding as UTF-8: a content that holds NaN
  or an infinity raises a ValueError there. Outside are the LangGraph agent and the identifiers. A message of the
  agent's result has a content or no such attribute; the result has a list of messages or
  no \<^verbatim>\<open>messages\<close> key. Building the \<^verbatim>\<open>HumanMessage\<close> and invoking the agent is one step
  of the environment, which answers with the result or with the exception raised.
\<close>

datatype message = Message (message_content: "pyval option")














section \<open>The tracing middleware: \<^verbatim>\<open>TracingMiddleware.__call__\<close>\<close>

text \<open>
  The ASGI scope, as far as the middleware reads it: the type, the path (\<open>None\<close> when the
  scope has none) and the header pairs. A header name or value is a string, or a byte string
  given by what \<^verbatim>\<open>decode()\<close> makes of it: the text, or the UnicodeDecodeError of bytes
  that are not UTF-8.
\<close>

datatype header_text = HStr string | HBytes "exn + string"

record scope =
  scope_type :: string
  scope_path :: "string option"
  scope_headers :: "(header_text \<times> header_text) list"

datatype span_kind = SERVER | CLIENT

record span_context =
  is_valid :: bool
  trace_id :: nat
  span_id :: nat

text \<open>
  The effects of the middleware: the call of the wrapped application, the start of a span
  (with its name, the header dictionary from which the propagator extracts the parent
  context, and its kind), the attributes set, the line printed, and the end of the span
  when the \<^verbatim>\<open>with\<close> block is left. Outside are the application, which returns or raises,
  and the tracer, which gives the context of the span it starts.
\<close>

datatype tracing_effect =
    CallApp scope
  | StartSpan string "(string \<times> string) list" span_kind
  | SetAttribute string string
  | TracePrint string
  | EndSpan

type_synonym tracing_world = "tracing_effect list"

record tracing_env =
  app :: "tracing_world \<Rightarrow> scope \<Rightarrow> exn option"
  start_span :: "tracing_world \<Rightarrow> string \<Rightarrow> (string \<times> string) list \<Rightarrow> span_context"

definition decode :: "header_text \<Rightarrow> exn + string" where
  "decode h = (case h of HStr s \<Rightarrow> Inr s | HBytes d \<Rightarrow> d)"

text \<open>The loop that fills the dictionary: the name is decoded, then the value; a later
  pair is put in front, so that \<open>map_of\<close> reads the value assigned last.\<close>

fun decode_headers ::
  "(header_text \<times> header_text) list \<Rightarrow> (string \<times> string) list \<Rightarrow> exn + (string \<times> string) list" where
  "decode_headers [] headers = Inr headers"
| "decode_headers ((key, val) # rest) headers =
     and_then (decode key) (\<lambda>k.
     and_then (decode val) (\<lambda>v.
       decode_headers rest ((k, v) # headers)))"

text \<open>\<^verbatim>\<open>format(n, '032x')\<close> and \<^verbatim>\<open>format(n, '016x')\<close>: lower-case hexadecimal, filled with
  zeros on the left up to the width.\<close>

fun hex :: "nat \<Rightarrow> string" where
  "hex n = (if n < 16 then [''0123456789abcdef'' ! n]
            else hex (n div 16) @ [''0123456789abcdef'' ! (n mod 16)])"

definition format_hex :: "nat \<Rightarrow> nat \<Rightarrow> string" where
  "format_hex width n = replicate (width - length (hex n)) CHR ''0'' @ hex n"

definition trace_line :: "string \<Rightarrow> span_context \<Rightarrow> (string \<times> string) list \<Rightarrow> string" where
  "trace_line service_name ctx headers =
     (let parent_span_id = (case map_of headers ''traceparent'' of Some v \<Rightarrow> v | None \<Rightarrow> ''none'')
      in ''  ['' @ service_name @ ''] trace='' @ take 8 (format_hex 32 (trace_id ctx))
         @ ''... span='' @ take 8 (format_hex 16 (span_id ctx))
         @ ''... parent='' @ (if parent_span_id \<noteq> ''none'' then take 20 parent_span_id else ''root''))"

text \<open>
  The result is the exception that leaves the middleware, if any, and the log. A scope
  that is not HTTP, and a path that contains \<^verbatim>\<open>.well-known\<close>, go to the application at
  once. Otherwise the headers are decoded, outside every handler, the span is started, and
  the application runs inside it.
\<close>

definition TracingMiddleware_call ::
  "tracing_env \<Rightarrow> string \<Rightarrow> tracing_world \<Rightarrow> scope \<Rightarrow> exn option \<times> tracing_world" where
  "TracingMiddleware_call env service_name w scope =
     (if scope_type scope \<noteq> ''http'' then (app env w scope, w @ [CallApp scope])
      else
        (let path = (case scope_path scope of Some p \<Rightarrow> p | None \<Rightarrow> ''/'') in
         if sublist ''.well-known'' path then (app env w scope, w @ [CallApp scope])
         else
           (case decode_headers (scope_headers scope) [] of
              Inl e \<Rightarrow> (Some e, w)
            | Inr headers \<Rightarrow>
                (let ctx = start_span env w service_name headers;
                     w1 = w @ [StartSpan service_name headers SERVER,
                               SetAttribute ''service.name'' service_name,
                               SetAttribute ''http.path'' path];
                     w2 = (if is_valid ctx
                           then w1 @ [TracePrint (trace_line service_name ctx headers)]
                           else w1)
                 in (app env w2 scope, w2 @ [CallApp scope, EndSpan])))))"

section \<open>Scenarios\<close>

text \<open>Concrete surroundings on which the theorems below are run: an orchestrator with the
  default ports; a world where the model is unreachable and both specialists refuse the
  connection; and a world where the model names the bear analyst and the bear specialist
  answers with one text artifact.\<close>

definition example_orchestrator :: orchestrator where
  "example_orchestrator = create_orchestrator Map.empty"

definition offline_env :: env where
  "offline_env =
     \<lparr> messages_create = (\<lambda>w request. Inl (Exn ''APIConnectionError'' ''Connection error.'')),
       http_post = (\<lambda>w url payload. Inl (Exn ''ConnectError'' ''All connection attempts failed'')),
       uuid4 = (\<lambda>w. ''7d4e1c1e-0000-4000-8000-'' @ replicate (length w) CHR ''0''),
       py_str = (\<lambda>v. '''') \<rparr>"

definition artifact_body :: "string \<Rightarrow> pyval" where
  "artifact_body t =
     PDict [(''jsonrpc'', PStr ''2.0''),
            (''result'', PDict [(''artifacts'',
               PList [PDict [(''artifactId'', PStr ''a1''),
                             (''parts'', PList [PDict [(''kind'', PStr ''text''),
                                                      (''text'', PStr t)]])]])])]"

definition bear_env :: env where
  "bear_env =
     \<lparr> messages_create = (\<lambda>w request. Inr [TextBlock '' Bear_Analyst\<newline>'']),
       http_post = (\<lambda>w url payload.
          if url = ''http://localhost:8002/''
          then Inr \<lparr> status_code = 200, status_message = '''',
                     json_body = Inr (artifact_body ''Margins are thin.'') \<rparr>
          else Inl (Exn ''ConnectError'' ''All connection attempts failed'')),
       uuid4 = (\<lambda>w. ''7d4e1c1e-0000-4000-8000-'' @ replicate (length w) CHR ''0''),
       py_str = (\<lambda>v. '''') \<rparr>"

text \<open>A world where every specialist is unavailable: status 503 and a body that is not
  JSON.\<close>

definition unavailable_env :: env where
  "unavailable_env =
     \<lparr> messages_create = (\<lambda>w request. Inr [TextBlock ''both'']),
       http_post = (\<lambda>w url payload.
          Inr \<lparr> status_code = 503,
                status_message = ''Server error '' @ quoted ''503 Service Unavailable''
                                 @ '' for url '' @ quoted url,
                json_body = Inl (Exn ''JSONDecodeError''
                                   ''Expecting value: line 1 column 1 (char 0)'') \<rparr>),
       uuid4 = (\<lambda>w. ''7d4e1c1e-0000-4000-8000-'' @ replicate (length w) CHR ''0''),
       py_str = (\<lambda>v. '''') \<rparr>"

text \<open>A reply that carries its text under \<^verbatim>\<open>result.status.message.parts\<close> and has no
  artifacts, and a world where the bear specialist sends it.\<close>

definition status_body :: "string \<Rightarrow> pyval" where
  "status_body t =
     PDict [(''jsonrpc'', PStr ''2.0''),
            (''result'', PDict [(''status'',
               PDict [(''message'', PDict [(''parts'', PList [PDict [(''text'', PStr t)]])])])])]"

definition status_env :: env where
  "status_env =
     \<lparr> messages_create = (\<lambda>w request. Inr [TextBlock ''bear_analyst'']),
       http_post = (\<lambda>w url payload.
          Inr \<lparr> status_code = 200, status_message = '''',
                json_body = Inr (status_body ''Margins are thin.'') \<rparr>),
       uuid4 = (\<lambda>w. ''7d4e1c1e-0000-4000-8000-'' @ replicate (length w) CHR ''0''),
       py_str = (\<lambda>v. '''') \<rparr>"


definition quiet_app_env :: tracing_env where
  "quiet_app_env =
     \<lparr> app = (\<lambda>w scope. None),
       start_span = (\<lambda>w name headers. \<lparr> is_valid = True, trace_id = 255, span_id = 4096 \<rparr>) \<rparr>"

section \<open>Strings: stripping and lower-casing do not hide a keyword\<close>

lemma sublist_dropWhile:
  assumes "k \<noteq> []" and "\<not> P (hd k)"
  shows "sublist k (dropWhile P s) = sublist k s"
proof
  assume "sublist k (dropWhile P s)"
  moreover have "suffix (dropWhile P s) s"
    by (rule suffix_dropWhile)
  ultimately show "sublist k s"
    by (meson sublist_order.order_trans suffix_imp_sublist)
next
  assume "sublist k s"
  then obtain ps ss where s: "s = ps @ k @ ss"
    by (auto simp: sublist_def)
  have "sublist k (dropWhile P (ps @ k @ ss))"
  proof (induction ps)
    case Nil
    from assms have "dropWhile P (k @ ss) = k @ ss"
      by (cases k) auto
    then show ?case
      by (simp add: sublist_def) (metis append_Nil)
  next
    case (Cons p ps)
    show ?case
    proof (cases "P p")
      case True
      then show ?thesis using Cons by simp
    next
      case False
      then have "dropWhile P ((p # ps) @ k @ ss) = (p # ps) @ k @ ss"
        by simp
      then show ?thesis
        unfolding sublist_def by metis
    qed
  qed
  with s show "sublist k (dropWhile P s)"
    by simp
qed

lemma sublist_strip:
  assumes "k \<noteq> []" and "\<not> is_space (hd k)" and "\<not> is_space (last k)"
  shows "sublist k (strip s) = sublist k s"
proof -
  have "sublist k (strip s) = sublist (rev k) (dropWhile is_space (rev (dropWhile is_space s)))"
    unfolding strip_def by (metis sublist_rev rev_rev_ident)
  also have "\<dots> = sublist (rev k) (rev (dropWhile is_space s))"
    using assms by (intro sublist_dropWhile) (simp_all add: hd_rev)
  also have "\<dots> = sublist k (dropWhile is_space s)"
    by simp
  also have "\<dots> = sublist k s"
    using assms by (intro sublist_dropWhile)
  finally show ?thesis .
qed

lemma is_space_lower_char: "is_space (lower_char c) = is_space c"
  by (auto simp: is_space_def lower_char_def Let_def)

lemma lower_dropWhile: "lower (dropWhile is_space s) = dropWhile is_space (lower s)"
  by (induction s) (simp_all add: lower_def is_space_lower_char)

lemma lower_strip: "lower (strip s) = strip (lower s)"
  by (simp add: strip_def lower_def rev_map[symmetric] lower_dropWhile[unfolded lower_def])

lemma reply_keywords_strip:
  "sublist ''both'' (lower (strip s)) = sublist ''both'' (lower s)"
  "sublist ''bear'' (lower (strip s)) = sublist ''bear'' (lower s)"
  "sublist ''bull'' (lower (strip s)) = sublist ''bull'' (lower s)"
  by (simp_all add: lower_strip sublist_strip is_space_def)

section \<open>Routing\<close>

text \<open>
  C2. A query whose lower-casing contains \<open>analyze\<close>, \<open>analysis\<close>, \<open>both\<close>,
  \<open>bull and bear\<close>, \<open>pros and cons\<close> or \<open>opportunities and risks\<close> is routed to both
  analysts. The log of effects is returned as it was, so no model call (and no other
  effect) was issued, and the answer is the same in every environment \<open>env\<close>, whatever the
  model would have replied.
\<close>

theorem fast_path_routes_to_both:
  assumes "sublist ''analyze'' (lower q) \<or> sublist ''analysis'' (lower q)
         \<or> sublist ''both'' (lower q) \<or> sublist ''bull and bear'' (lower q)
         \<or> sublist ''pros and cons'' (lower q) \<or> sublist ''opportunities and risks'' (lower q)"
  shows "determine_agents env self w (PStr q) = (Inr [''bull_analyst'', ''bear_analyst''], w)"
  using assms by (auto simp: determine_agents_def Let_def)

theorem fast_path_routes_to_both_witness:
  "sublist ''pros and cons'' (lower ''Pros AND Cons of TSLA?'')
   \<and> determine_agents bear_env example_orchestrator [] (PStr ''Pros AND Cons of TSLA?'')
       = (Inr [''bull_analyst'', ''bear_analyst''], [])"
proof -
  have h: "sublist ''pros and cons'' (lower ''Pros AND Cons of TSLA?'')"
    by code_simp
  then have "sublist ''analyze'' (lower ''Pros AND Cons of TSLA?'')
         \<or> sublist ''analysis'' (lower ''Pros AND Cons of TSLA?'')
         \<or> sublist ''both'' (lower ''Pros AND Cons of TSLA?'')
         \<or> sublist ''bull and bear'' (lower ''Pros AND Cons of TSLA?'')
         \<or> sublist ''pros and cons'' (lower ''Pros AND Cons of TSLA?'')
         \<or> sublist ''opportunities and risks'' (lower ''Pros AND Cons of TSLA?'')"
    by blast
  from fast_path_routes_to_both [OF this] h show ?thesis
    by blast
qed

text \<open>
  C4. When no fast-path keyword matches, the decision is read off the model's reply, lower
  case or not: \<open>both\<close> anywhere in it gives both analysts; else \<open>bear\<close> the bear analyst;
  else \<open>bull\<close> the bull analyst; else both. A call that raises gives both, and so does a
  reply without a first text block.
\<close>

theorem classification_reply_parsed:
  assumes "\<not> sublist ''analyze'' (lower q) \<and> \<not> sublist ''analysis'' (lower q)
         \<and> \<not> sublist ''both'' (lower q) \<and> \<not> sublist ''bull and bear'' (lower q)
         \<and> \<not> sublist ''pros and cons'' (lower q)
         \<and> \<not> sublist ''opportunities and risks'' (lower q)"
  shows "fst (determine_agents env self w (PStr q)) =
           Inr (case messages_create env w (routing_request self q) of
                  Inl e \<Rightarrow> [''bull_analyst'', ''bear_analyst'']
                | Inr [] \<Rightarrow> [''bull_analyst'', ''bear_analyst'']
                | Inr (OtherBlock cls # blocks) \<Rightarrow> [''bull_analyst'', ''bear_analyst'']
                | Inr (TextBlock reply # blocks) \<Rightarrow>
                    if sublist ''both'' (lower reply) then [''bull_analyst'', ''bear_analyst'']
                    else if sublist ''bear'' (lower reply) then [''bear_analyst'']
                    else if sublist ''bull'' (lower reply) then [''bull_analyst'']
                    else [''bull_analyst'', ''bear_analyst''])"
  using assms
  by (simp add: determine_agents_def Let_def reply_keywords_strip
           split: sum.splits list.splits content_block.splits)

theorem classification_reply_parsed_witness:
  "(\<not> sublist ''analyze'' (lower ''What could go wrong with AAPL?'')
    \<and> \<not> sublist ''analysis'' (lower ''What could go wrong with AAPL?'')
    \<and> \<not> sublist ''both'' (lower ''What could go wrong with AAPL?'')
    \<and> \<not> sublist ''bull and bear'' (lower ''What could go wrong with AAPL?'')
    \<and> \<not> sublist ''pros and cons'' (lower ''What could go wrong with AAPL?'')
    \<and> \<not> sublist ''opportunities and risks'' (lower ''What could go wrong with AAPL?''))
   \<and> fst (determine_agents bear_env example_orchestrator []
             (PStr ''What could go wrong with AAPL?'')) = Inr [''bear_analyst'']
   \<and> fst (determine_agents offline_env example_orchestrator []
             (PStr ''What could go wrong with AAPL?'')) = Inr [''bull_analyst'', ''bear_analyst'']"
proof -
  have h: "\<not> sublist ''analyze'' (lower ''What could go wrong with AAPL?'')
    \<and> \<not> sublist ''analysis'' (lower ''What could go wrong with AAPL?'')
    \<and> \<not> sublist ''both'' (lower ''What could go wrong with AAPL?'')
    \<and> \<not> sublist ''bull and bear'' (lower ''What could go wrong with AAPL?'')
    \<and> \<not> sublist ''pros and cons'' (lower ''What could go wrong with AAPL?'')
    \<and> \<not> sublist ''opportunities and risks'' (lower ''What could go wrong with AAPL?'')"
    by code_simp
  have bear: "sublist ''bear'' (lower '' Bear_Analyst\<newline>'')"
    and both: "\<not> sublist ''both'' (lower '' Bear_Analyst\<newline>'')"
    by code_simp+
  from classification_reply_parsed [OF h, of bear_env example_orchestrator "[]"] bear both
  have "fst (determine_agents bear_env example_orchestrator []
               (PStr ''What could go wrong with AAPL?'')) = Inr [''bear_analyst'']"
    by (simp add: bear_env_def)
  moreover from classification_reply_parsed [OF h, of offline_env example_orchestrator "[]"]
  have "fst (determine_agents offline_env example_orchestrator []
               (PStr ''What could go wrong with AAPL?'')) = Inr [''bull_analyst'', ''bear_analyst'']"
    by (simp add: offline_env_def)
  ultimately show ?thesis
    using h by blast
qed

section \<open>Calling a specialist\<close>

lemma has_truthy_True:
  "has_truthy key v = Inr True \<longleftrightarrow>
     (\<exists>kvs x. v = PDict kvs \<and> map_of kvs key = Some x \<and> truthy x)"
  by (cases v) (auto simp: has_truthy_def split: option.splits if_splits)

lemma and_then_Inr_iff: "and_then m f = Inr y \<longleftrightarrow> (\<exists>x. m = Inr x \<and> f x = Inr y)"
  by (cases m) auto

lemma py_getitem_Inr:
  "py_getitem v key = Inr x \<longleftrightarrow> (\<exists>kvs. v = PDict kvs \<and> map_of kvs key = Some x)"
  by (cases v) (auto split: option.splits)

lemma py_get_Inr:
  "py_get v key d = Inr x \<longleftrightarrow>
     (\<exists>kvs. v = PDict kvs \<and> x = (case map_of kvs key of Some y \<Rightarrow> y | None \<Rightarrow> d))"
  by (cases v) auto

lemma py_getitem0_Inr:
  "py_getitem0 v = Inr x \<longleftrightarrow>
     (\<exists>xs. v = PList (x # xs)) \<or> (\<exists>c cs. v = PStr (c # cs) \<and> x = PStr [c])"
  by (cases v rule: py_getitem0.cases) auto

lemma not_parts_in_char: "\<not> sublist ''parts'' [c]"
  by (auto simp: sublist_def Cons_eq_append_conv)

text \<open>The block returns the text of the accepted shape, and nothing but the empty string
  on any other body.\<close>

lemma extract_text_artifact:
  "artifact_text body = Some t \<Longrightarrow> extract_text body = Inr t"
  by (auto simp: artifact_text_def extract_text_def has_truthy_def
           split: pyval.splits option.splits list.splits if_splits)

lemma extract_text_Inr:
  assumes "extract_text body = Inr t"
  shows "artifact_text body = Some t \<or> t = PStr ''''"
  using assms unfolding extract_text_def artifact_text_def
  by (auto simp: and_then_Inr_iff has_truthy_True py_getitem_Inr py_get_Inr py_getitem0_Inr
                 has_truthy_def not_parts_in_char
           split: if_splits option.splits)

lemma extract_text_no_artifact:
  assumes "artifact_text body = None"
  shows "extract_text body = Inr (PStr '''') \<or> (\<exists>e. extract_text body = Inl e)"
proof (cases "extract_text body")
  case (Inl e)
  then show ?thesis by blast
next
  case (Inr t)
  with extract_text_Inr [OF Inr] assms show ?thesis by simp
qed

lemma call_agent_never_raises:
  "\<exists>text. fst (call_agent_via_a2a env w agent_url query) = Inr text"
  by (auto simp: call_agent_via_a2a_def split: prod.splits sum.splits)

lemma status_message_text_never_read:
  "extract_text (status_body t) = Inr (PStr '''')"
  "cli_extract_text (status_body t) = Inr (Some (PStr t))"
  by (simp_all add: status_body_def extract_text_def cli_extract_text_def has_truthy_def)

text \<open>
  C1. The claim asks the client to read, after \<^verbatim>\<open>result.artifacts[].parts[].text\<close>, the
  text under \<^verbatim>\<open>result.status.message.parts[].text\<close>. The client has no such branch: on a
  successful reply whose only text is \<open>Margins are thin.\<close> under \<^verbatim>\<open>status.message\<close> it
  returns the empty string, where the command line client's parse of the same body finds
  the text.
\<close>

theorem status_message_reply_dropped:
  "fst (call_agent_via_a2a status_env [] ''http://localhost:8002/'' (PStr ''Risks of AAPL?''))
     = Inr (PStr '''')
   \<and> cli_extract_text (status_body ''Margins are thin.'') = Inr (Some (PStr ''Margins are thin.''))"
  by (simp add: call_agent_via_a2a_def post_message_def status_env_def status_body_def Let_def
        raise_for_status_def extract_text_def cli_extract_text_def has_truthy_def)

text \<open>
  C5. Whenever the invocation of a specialist fails, the client returns the empty string
  and raises nothing: when the post raises (connection error, timeout), when the status is
  not 200 to 299, when the body is not JSON, and when the JSON body lacks the expected
  fields (a text part first in the first artifact).
\<close>

theorem specialist_failure_gives_empty:
  assumes "(\<exists>e. fst (post_message env w agent_url query) = Inl e)
         \<or> (\<exists>response. fst (post_message env w agent_url query) = Inr response
              \<and> (status_code response < 200 \<or> 299 < status_code response
                  \<or> (\<exists>e. json_body response = Inl e)
                  \<or> (\<exists>body. json_body response = Inr body \<and> artifact_text body = None)))"
  shows "fst (call_agent_via_a2a env w agent_url query) = Inr (PStr '''')"
proof -
  obtain posted w3 where p: "post_message env w agent_url query = (posted, w3)"
    by (cases "post_message env w agent_url query")
  show ?thesis
  proof (cases posted)
    case (Inl e)
    with p show ?thesis
      by (simp add: call_agent_via_a2a_def)
  next
    case (Inr response)
    with p assms have f: "status_code response < 200 \<or> 299 < status_code response
                  \<or> (\<exists>e. json_body response = Inl e)
                  \<or> (\<exists>body. json_body response = Inr body \<and> artifact_text body = None)"
      by simp
    show ?thesis
    proof (cases "200 \<le> status_code response \<and> status_code response \<le> 299")
      case False
      with p Inr show ?thesis
        by (auto simp: call_agent_via_a2a_def raise_for_status_def)
    next
      case ok: True
      show ?thesis
      proof (cases "json_body response")
        case (Inl e)
        with p Inr ok show ?thesis
          by (simp add: call_agent_via_a2a_def raise_for_status_def)
      next
        case body: (Inr body)
        with f ok have "artifact_text body = None"
          by auto
        from extract_text_no_artifact [OF this] p Inr ok body show ?thesis
          by (auto simp: call_agent_via_a2a_def raise_for_status_def)
      qed
    qed
  qed
qed

theorem specialist_failure_gives_empty_witness:
  "(\<exists>e. fst (post_message offline_env [] ''http://localhost:8001/'' (PStr ''Upside of NVDA?''))
          = Inl e)
   \<and> fst (call_agent_via_a2a offline_env [] ''http://localhost:8001/'' (PStr ''Upside of NVDA?''))
       = Inr (PStr '''')
   \<and> fst (call_agent_via_a2a unavailable_env [] ''http://localhost:8001/'' (PStr ''Upside of NVDA?''))
       = Inr (PStr '''')
   \<and> fst (call_agent_via_a2a status_env [] ''http://localhost:8001/'' (PStr ''Upside of NVDA?''))
       = Inr (PStr '''')"
proof -
  have h: "\<exists>e. fst (post_message offline_env [] ''http://localhost:8001/''
                       (PStr ''Upside of NVDA?'')) = Inl e"
    by (simp add: post_message_def offline_env_def Let_def)
  have u: "\<exists>response. fst (post_message unavailable_env [] ''http://localhost:8001/''
                              (PStr ''Upside of NVDA?'')) = Inr response
             \<and> (status_code response < 200 \<or> 299 < status_code response
                 \<or> (\<exists>e. json_body response = Inl e)
                 \<or> (\<exists>body. json_body response = Inr body \<and> artifact_text body = None))"
    by (simp add: post_message_def unavailable_env_def Let_def)
  have s: "\<exists>response. fst (post_message status_env [] ''http://localhost:8001/''
                              (PStr ''Upside of NVDA?'')) = Inr response
             \<and> (status_code response < 200 \<or> 299 < status_code response
                 \<or> (\<exists>e. json_body response = Inl e)
                 \<or> (\<exists>body. json_body response = Inr body \<and> artifact_text body = None))"
    by (simp add: post_message_def status_env_def Let_def artifact_text_def status_body_def)
  from specialist_failure_gives_empty [OF disjI1 [OF h]]
       specialist_failure_gives_empty [OF disjI2 [OF u]]
       specialist_failure_gives_empty [OF disjI2 [OF s]] h
  show ?thesis
    by blast
qed

section \<open>The merged response\<close>

text \<open>
  C3. With two non-empty specialist texts the response is the Bull section, a rule and
  the Bear section, in this order; with one non-empty text it is that side's section
  alone, under that side's header. Nothing is called and nothing is printed.
\<close>

theorem merged_response_format:
  "(bull \<noteq> [] \<and> bear \<noteq> [] \<longrightarrow>
      format_response env self w query (PStr bull) (PStr bear) =
        (''## Bull Case\<newline>\<newline>'' @ bull
           @ ''\<newline>\<newline>---\<newline>\<newline>## Bear Case\<newline>\<newline>'' @ bear, w))
   \<and> (bull \<noteq> [] \<and> bear = [] \<longrightarrow>
      format_response env self w query (PStr bull) (PStr bear) =
        (''## Bull Case\<newline>\<newline>'' @ bull, w))
   \<and> (bull = [] \<and> bear \<noteq> [] \<longrightarrow>
      format_response env self w query (PStr bull) (PStr bear) =
        (''## Bear Case\<newline>\<newline>'' @ bear, w))"
  by (simp add: format_response_def)

theorem merged_response_format_witness:
  "format_response offline_env example_orchestrator [] (PStr ''NVDA?'') (PStr ''X'') (PStr ''Y'')
     = (''## Bull Case\<newline>\<newline>X\<newline>\<newline>---\<newline>\<newline>## Bear Case\<newline>\<newline>Y'', [])
   \<and> format_response offline_env example_orchestrator [] (PStr ''NVDA?'') (PStr ''X'') (PStr '''')
     = (''## Bull Case\<newline>\<newline>X'', [])
   \<and> format_response offline_env example_orchestrator [] (PStr ''NVDA?'') (PStr '''') (PStr ''Y'')
     = (''## Bear Case\<newline>\<newline>Y'', [])"
  using merged_response_format [of "''X''" "''Y''" offline_env example_orchestrator "[]" "PStr ''NVDA?''"]
        merged_response_format [of "''X''" "''''" offline_env example_orchestrator "[]" "PStr ''NVDA?''"]
        merged_response_format [of "''''" "''Y''" offline_env example_orchestrator "[]" "PStr ''NVDA?''"]
  by simp

text \<open>
  C6. With two empty specialist texts the response is generated: exactly one model call is
  added to the log, its request carrying the orchestrator's system prompt and the query,
  and the text of its first block is returned as it is. When the call raises, or the reply
  has no first text block, the response is the text \<open>Error generating response: \<close>
  followed by the error. In every case the result is a string.
\<close>

theorem fallback_generation:
  "format_response env self w query (PStr '''') (PStr '''') =
     (case messages_create env w (fallback_request env self query) of
        Inr (TextBlock text # blocks) \<Rightarrow> text
      | Inr (OtherBlock cls # blocks) \<Rightarrow>
          ''Error generating response: '' @ quoted cls @ '' object has no attribute ''
            @ quoted ''text''
      | Inr [] \<Rightarrow> ''Error generating response: list index out of range''
      | Inl e \<Rightarrow> ''Error generating response: '' @ exn_str e,
      w @ [ModelCall (fallback_request env self query)])
   \<and> req_content (fallback_request env self query) =
       ORCHESTRATOR_SYSTEM_PROMPT @ ''\<newline>\<newline>User Query: '' @ format_value env query
         @ ''\<newline>\<newline>Provide a financial analysis based on the query.''"
  by (simp add: format_response_def fallback_request_def
           split: sum.splits list.splits content_block.splits)

section \<open>A request without a query\<close>

lemma first_part_text_empty:
  "first_part_text parts = [] \<longleftrightarrow>
     (\<forall>p \<in> set parts. part_text p = None \<or> part_text p = Some [])"
  by (induction parts rule: first_part_text.induct) auto

text \<open>When the extraction ends, and ends with an empty query, the one event
  \<open>No query provided\<close> is yielded and nothing is called. The extraction ends with an
  empty query exactly on the contexts of the second lemma.\<close>

lemma empty_query_event:
  assumes "extract_query parent_context = Inr query" and "\<not> truthy query"
  shows "run_async env self w parent_context =
           (Inr [\<lparr> author = ''agent'', event_text = ''No query provided'' \<rparr>], w)"
  using assms by (simp add: run_async_def)

lemma extract_query_empty:
  "(\<exists>query. extract_query parent_context = Inr query \<and> \<not> truthy query) \<longleftrightarrow>
     (case user_content parent_context of
        None \<Rightarrow> True
      | Some (Content None) \<Rightarrow> False
      | Some (Content (Some parts)) \<Rightarrow>
          \<forall>p \<in> set parts. part_text p = None \<or> part_text p = Some []
      | Some (TextOnly t) \<Rightarrow> \<not> truthy t
      | Some Opaque \<Rightarrow> True)
     \<and> (case session_state parent_context of
          None \<Rightarrow> True
        | Some state \<Rightarrow> (case map_of state ''query'' of None \<Rightarrow> True | Some v \<Rightarrow> \<not> truthy v))"
  by (auto simp: extract_query_def content_query_def first_part_text_empty
           split: option.splits content.splits)

text \<open>
  C10. The claim asks for the one event \<open>No query provided\<close> on every context from which
  no query text can be extracted. The code yields it when the extraction ends with an empty
  query (\<open>empty_query_event\<close>), but not on every such context: a user content whose parts
  is \<open>None\<close>, the default of a \<^verbatim>\<open>Content\<close>, makes the loop over the parts raise a
  TypeError, and a session state whose query is the number 5, which is no text, passes the
  test for emptiness and makes the routing raise an AttributeError. In both cases the
  exception leaves \<^verbatim>\<open>run_async\<close> and no event is yielded.
\<close>

theorem query_less_context_raises:
  "run_async bear_env example_orchestrator []
     \<lparr> user_content = Some (Content None), session_state = Some [] \<rparr>
     = (Inl (Exn ''TypeError'' (quoted ''NoneType'' @ '' object is not iterable'')), [])
   \<and> run_async bear_env example_orchestrator []
     \<lparr> user_content = None, session_state = Some [(''query'', PNum 5)] \<rparr>
     = (Inl (Exn ''AttributeError''
              (quoted ''int'' @ '' object has no attribute '' @ quoted ''lower'')), [])"
  by (simp add: run_async_def extract_query_def content_query_def determine_agents_def)

section \<open>The bull server: a request without text\<close>






section \<open>The tracing middleware\<close>

lemma well_known_not_traced:
  assumes "scope_type scope = ''http''" and "scope_path scope = Some path"
      and "sublist ''.well-known'' path"
  shows "TracingMiddleware_call env service_name w scope = (app env w scope, w @ [CallApp scope])"
  using assms by (simp add: TracingMiddleware_call_def)

lemma decodable_request_traced:
  assumes "scope_type scope = ''http''"
      and "\<not> sublist ''.well-known'' (case scope_path scope of Some p \<Rightarrow> p | None \<Rightarrow> ''/'')"
      and "decode_headers (scope_headers scope) [] = Inr headers"
  shows "\<exists>printed. snd (TracingMiddleware_call env service_name w scope) =
           w @ [StartSpan service_name headers SERVER,
                SetAttribute ''service.name'' service_name,
                SetAttribute ''http.path'' (case scope_path scope of Some p \<Rightarrow> p | None \<Rightarrow> ''/'')]
             @ printed @ [CallApp scope, EndSpan]
         \<and> (printed = [] \<or> (\<exists>line. printed = [TracePrint line]))"
  using assms by (simp add: TracingMiddleware_call_def Let_def)

text \<open>
  C9. A request for a path that contains \<^verbatim>\<open>.well-known\<close> goes to the application and
  no span is started (\<open>well_known_not_traced\<close>), and any other HTTP request whose headers
  decode runs inside a span of kind server (\<open>decodable_request_traced\<close>). But the
  middleware decodes the headers before it starts the span: a request with a header value
  that is not UTF-8 leaves it with a UnicodeDecodeError, with no span started and the
  application not called.
\<close>

theorem undecodable_header_untraced:
  "TracingMiddleware_call quiet_app_env ''bull-agent'' []
     \<lparr> scope_type = ''http'', scope_path = Some ''/'',
       scope_headers = [(HBytes (Inr ''x-client''),
                         HBytes (Inl (Exn ''UnicodeDecodeError''
                           (quoted ''utf-8'' @ '' codec can't decode byte 0xff in position 0: invalid start byte''))))] \<rparr>
   = (Some (Exn ''UnicodeDecodeError''
        (quoted ''utf-8'' @ '' codec can't decode byte 0xff in position 0: invalid start byte'')), [])"
  by (simp add: TracingMiddleware_call_def decode_def sublist_Cons_right prefix_Cons)

end
